theory Spec2Isabelle
  imports Main "HOL-Library.Sublist"
begin

section \<open>ApolloApi: a GraphQL construct over the generic Api construct\<close>

text \<open>
  A shallow embedding of \<^verbatim>\<open>packages/resources/src/ApolloApi.ts\<close>. The class
  \<^verbatim>\<open>ApolloApi extends Api\<close> becomes a record extending the record of the inherited
  part; a thrown \<^verbatim>\<open>Error\<close> becomes the left summand of a result; the external
  process and the call of the parent constructor are written into a list of events, so
  that "never invoked" is a statement about that list.
\<close>

subsection \<open>Values of the host language\<close>

datatype js_error = Error string | TypeError string

text \<open>
  Modelled from the spec: the handler descriptor, an opaque value that is passed through
  unmodified (\<^verbatim>\<open>FunctionDefinition\<close>, imported from \<^verbatim>\<open>./Function\<close>, which is
  not among the sources at hand). The constructor only tests it for truthiness, so the
  model keeps apart a handler path (a string, falsy when empty) and an object (always
  truthy); an omitted field (\<^verbatim>\<open>undefined\<close>) is \<open>None\<close>. Objects are
  references of type \<open>'o\<close>. A Function construct (the class \<^verbatim>\<open>Fn\<close> of the same
  file) is such an object, so as a descriptor it is \<open>FnObject\<close> of its reference, and it
  is never a handler path.
\<close>

datatype 'o FunctionDefinition = FnHandler string | FnObject 'o

fun truthy_FunctionDefinition :: "'o FunctionDefinition option \<Rightarrow> bool" where
  "truthy_FunctionDefinition None = False"
| "truthy_FunctionDefinition (Some (FnHandler s)) = (s \<noteq> [])"
| "truthy_FunctionDefinition (Some (FnObject _)) = True"

text \<open>
  Modelled from the spec: the payload-format version (the enum
  \<^verbatim>\<open>ApiPayloadFormatVersion\<close>, declared in \<^verbatim>\<open>./Api\<close>). \<open>V1\<close>, the member
  the constructor names as the default, is payload format 1.0. An enum member is a
  non-empty string, hence truthy.
\<close>

datatype ApiPayloadFormatVersion = V1 | V2

definition dq :: "string \<Rightarrow> string" where
  \<comment> \<open>a text between double quotes, as the template literals of the messages write it\<close>
  "dq s = CHR 0x22 # s @ [CHR 0x22]"

subsection \<open>Configuration\<close>

text \<open>
  \<^verbatim>\<open>ApolloApiProps extends Omit<ApiProps, "routes">\<close>. The constructor reads
  \<^verbatim>\<open>routes\<close> all the same (\<^verbatim>\<open>props as ApiProps\<close>), so the field is part of the
  record. \<open>otherProps\<close> holds the remaining fields of \<^verbatim>\<open>ApiProps\<close> by name.
\<close>

record ('o, 'x) ApolloApiProps =
  server :: "'o FunctionDefinition option"
  rootPath :: "string option"
  defaultPayloadFormatVersion :: "ApiPayloadFormatVersion option"
  routes :: "(string \<times> 'o FunctionDefinition) list option"
  codegen :: "string option"
  otherProps :: "(string \<times> 'x) list"

text \<open>
  The object literal handed to \<^verbatim>\<open>super\<close>: \<^verbatim>\<open>restProps\<close> (every field of the
  configuration but \<^verbatim>\<open>server\<close>, \<^verbatim>\<open>rootPath\<close> and
  \<^verbatim>\<open>defaultPayloadFormatVersion\<close>, so \<^verbatim>\<open>codegen\<close> is among them), then
  \<^verbatim>\<open>defaultPayloadFormatVersion\<close> and \<^verbatim>\<open>routes\<close>. A route map keeps the
  insertion order of its keys.
\<close>

record ('o, 'x) ApiProps =
  api_defaultPayloadFormatVersion :: "ApiPayloadFormatVersion option"
  api_routes :: "(string \<times> 'o FunctionDefinition) list"
  api_codegen :: "string option"
  api_otherProps :: "(string \<times> 'x) list"

subsection \<open>What the constructor does to the outside\<close>

datatype ('o, 'x) event =
    SpawnSync string "string list" string
  | ApiSuper string "('o, 'x) ApiProps"

text \<open>
  The collaborators the class calls and this file does not define:
  \<^item> \<open>App_local\<close>: \<^verbatim>\<open>App.of(scope).local\<close>;
  \<^item> \<open>spawn_sync\<close>: the exit status of \<^verbatim>\<open>spawn.sync(command, args, {stdio})\<close>,
    \<open>None\<close> for \<^verbatim>\<open>null\<close> (the process did not exit by itself);
  \<^item> \<open>default_integration\<close>: what the default integration-creation logic of
    \<^verbatim>\<open>Api\<close> obtains for a route in the construct tree \<open>'c\<close>: the Function construct
    for the route's descriptor and a reference \<open>'h\<close> to the integration bound to it; or
    it throws;
  \<^item> \<open>postfixName\<close>: the name suffix \<^verbatim>\<open>Api\<close> derives from a route key.
\<close>

record ('sc, 'o, 'h, 'c) deps =
  App_local :: "'sc \<Rightarrow> bool"
  spawn_sync :: "string \<Rightarrow> string list \<Rightarrow> string \<Rightarrow> int option"
  default_integration ::
    "'sc \<Rightarrow> string \<Rightarrow> 'o FunctionDefinition \<Rightarrow> string \<Rightarrow> 'c
     \<Rightarrow> js_error + (('o \<times> 'h) \<times> 'c)"
  postfixName :: "string \<Rightarrow> string"

subsection \<open>The inherited part of the object\<close>

text \<open>
  Modelled from the spec: the class \<^verbatim>\<open>Api\<close> (file \<^verbatim>\<open>./Api\<close>, not part of the
  sources at hand). The generic construct accepts a route map, asks the overridable hook
  for an integration once per route, and exposes the lookup \<^verbatim>\<open>getFunction(routeKey)\<close>.
  The source types what that lookup returns as a Function construct
  (\<^verbatim>\<open>get serverFunction(): Fn\<close> returns it), not as the descriptor of the
  configuration: the registry holds the constructs that the default integration-creation
  logic obtained, by route key. \<open>Api_state\<close> is what that logic reads and writes: the
  registry and the construct tree.
\<close>

record ('o, 'c) Api_state =
  registered :: "string \<rightharpoonup> 'o"
  constructs :: 'c

record ('o, 'h, 'w) Api =
  node_id :: string
  integrations :: "(string \<times> 'h) list"
  tree :: 'w

record ('o, 'x, 'h, 'w) ApolloApi = "('o, 'h, 'w) Api" +
  lambdaIntegration :: "'h option"
  this_rootPath :: "string option"
  this_props :: "('o, 'x) ApolloApiProps option"

text \<open>
  Modelled from the spec: the default integration-creation logic of \<^verbatim>\<open>Api\<close>, the
  method that \<^verbatim>\<open>ApolloApi\<close> overrides and calls as
  \<^verbatim>\<open>super.createFunctionIntegration\<close>. It obtains the Function construct and the
  integration of the route and registers the construct under the route key.
\<close>

definition Api_createFunctionIntegration ::
  "('sc, 'o, 'h, 'c) deps \<Rightarrow> 'sc \<Rightarrow> string \<Rightarrow> 'o FunctionDefinition \<Rightarrow> string
   \<Rightarrow> ('o, 'c) Api_state \<Rightarrow> js_error + ('h \<times> ('o, 'c) Api_state)" where
  "Api_createFunctionIntegration d scope routeKey routeProps postfix st =
     (case default_integration d scope routeKey routeProps postfix (constructs st) of
        Inl e \<Rightarrow> Inl e
      | Inr ((fn, h), c) \<Rightarrow>
          Inr (h, \<lparr> registered = (registered st)(routeKey \<mapsto> fn), constructs = c \<rparr>))"

text \<open>
  Modelled from the spec: \<^verbatim>\<open>Api\<close> registering its routes, "once per route, in
  route-map iteration order"; \<open>hook\<close> is the method \<^verbatim>\<open>createFunctionIntegration\<close> of
  the object under construction, and each route is bound to the integration it returns.
\<close>

fun Api_addRoutes ::
  "('sc \<Rightarrow> string \<Rightarrow> 'o FunctionDefinition \<Rightarrow> string \<Rightarrow> ('o, 'h, 'w, 'z) Api_scheme
      \<Rightarrow> js_error + ('h \<times> ('o, 'h, 'w, 'z) Api_scheme))
   \<Rightarrow> (string \<Rightarrow> string) \<Rightarrow> 'sc \<Rightarrow> (string \<times> 'o FunctionDefinition) list
   \<Rightarrow> ('o, 'h, 'w, 'z) Api_scheme \<Rightarrow> js_error + ('o, 'h, 'w, 'z) Api_scheme" where
  "Api_addRoutes hook sfx scope [] this = Inr this"
| "Api_addRoutes hook sfx scope ((routeKey, fn) # rs) this =
     (case hook scope routeKey fn (sfx routeKey) this of
        Inl e \<Rightarrow> Inl e
      | Inr (h, this') \<Rightarrow>
          Api_addRoutes hook sfx scope rs
            (this'\<lparr>integrations := integrations this' @ [(routeKey, h)]\<rparr>))"

text \<open>
  Modelled from the spec: the constructor of \<^verbatim>\<open>Api\<close>, which names the node and
  registers the routes of its configuration.
\<close>

definition Api_constructor ::
  "('sc \<Rightarrow> string \<Rightarrow> 'o FunctionDefinition \<Rightarrow> string \<Rightarrow> ('o, 'h, 'w, 'z) Api_scheme
      \<Rightarrow> js_error + ('h \<times> ('o, 'h, 'w, 'z) Api_scheme))
   \<Rightarrow> (string \<Rightarrow> string) \<Rightarrow> 'sc \<Rightarrow> string \<Rightarrow> ('o, 'x) ApiProps
   \<Rightarrow> ('o, 'h, 'w, 'z) Api_scheme \<Rightarrow> js_error + ('o, 'h, 'w, 'z) Api_scheme" where
  "Api_constructor hook sfx scope cid aprops this =
     Api_addRoutes hook sfx scope (api_routes aprops) (this\<lparr>node_id := cid\<rparr>)"


subsection \<open>The class ApolloApi\<close>

text \<open>
  \<^verbatim>\<open>createFunctionIntegration\<close> (lines 119 to 135). An integration is an object,
  hence truthy: \<^verbatim>\<open>!this.lambdaIntegration\<close> holds exactly when the field is unset.
\<close>

definition createFunctionIntegration ::
  "('sc \<Rightarrow> string \<Rightarrow> 'rp \<Rightarrow> string \<Rightarrow> 'w \<Rightarrow> js_error + ('h \<times> 'w))
   \<Rightarrow> 'sc \<Rightarrow> string \<Rightarrow> 'rp \<Rightarrow> string \<Rightarrow> ('o, 'x, 'h, 'w) ApolloApi
   \<Rightarrow> js_error + ('h \<times> ('o, 'x, 'h, 'w) ApolloApi)" where
  "createFunctionIntegration dflt scope routeKey routeProps postfix this =
     (case lambdaIntegration this of
        None \<Rightarrow>
          (case dflt scope routeKey routeProps postfix (tree this) of
             Inl e \<Rightarrow> Inl e
           | Inr (h, w) \<Rightarrow> Inr (h, this\<lparr>tree := w, lambdaIntegration := Some h\<rparr>))
      | Some h \<Rightarrow> Inr (h, this))"

text \<open>
  The codegen block of the constructor (lines 56 to 72). \<^verbatim>\<open>props.codegen\<close> is
  truthy when it is a non-empty string.
\<close>

definition run_codegen ::
  "('sc, 'o, 'h, 'w) deps \<Rightarrow> 'sc \<Rightarrow> string \<Rightarrow> string option
   \<Rightarrow> ('o, 'x) event list \<times> (js_error + unit)" where
  "run_codegen d scope cid cg =
     (case cg of
        None \<Rightarrow> ([], Inr ())
      | Some path \<Rightarrow>
          (if path \<noteq> [] then
             (if \<not> App_local d scope then
                (let args = [''graphql-codegen'', ''-c'', path] in
                 ([SpawnSync ''npx'' args ''inherit''],
                  if spawn_sync d ''npx'' args ''inherit'' \<noteq> Some 0
                  then Inl (Error (''Failed to generate the schema for the '' @ dq cid
                                   @ '' ApolloApi''))
                  else Inr ()))
              else ([], Inr ()))
           else ([], Inr ())))"

text \<open>The object literal of the \<^verbatim>\<open>super\<close> call (lines 74 to 82).\<close>

definition super_props ::
  "('o, 'x) ApolloApiProps \<Rightarrow> 'o FunctionDefinition \<Rightarrow> string \<Rightarrow> ('o, 'x) ApiProps" where
  "super_props p srv rp =
     \<lparr> api_defaultPayloadFormatVersion =
         (case defaultPayloadFormatVersion p of None \<Rightarrow> Some V1 | Some v \<Rightarrow> Some v),
       api_routes = [(''GET '' @ rp, srv), (''POST '' @ rp, srv)],
       api_codegen = codegen p,
       api_otherProps = otherProps p \<rparr>"

text \<open>
  The constructor (lines 35 to 86). \<open>None\<close> as configuration is \<^verbatim>\<open>null\<close> or
  \<^verbatim>\<open>undefined\<close>; the fields are destructured from \<^verbatim>\<open>props || {}\<close>, and
  \<^verbatim>\<open>routes\<close> from \<^verbatim>\<open>props\<close> itself, which throws a \<^verbatim>\<open>TypeError\<close> on
  \<^verbatim>\<open>undefined\<close>. Past the check of \<^verbatim>\<open>server\<close> the value \<open>srv\<close> is
  present, so the last case of the pattern match is that of the absent configuration.
  \<open>w\<close> is the construct tree before the call; the object starts with every field unset
  and an empty registry, and the parent constructor runs on it, calling the overridden
  method, whose \<^verbatim>\<open>super\<close> call is the default logic of \<^verbatim>\<open>Api\<close>.
\<close>

definition ApolloApi_constructor ::
  "('sc, 'o, 'h, 'c) deps \<Rightarrow> 'sc \<Rightarrow> string \<Rightarrow> ('o, 'x) ApolloApiProps option \<Rightarrow> 'c
   \<Rightarrow> ('o, 'x) event list
       \<times> (js_error + ('o, 'x, 'h, ('o, 'c) Api_state) ApolloApi)" where
  "ApolloApi_constructor d scope cid props w =
     (let srv = Option.bind props server;
          rp = (case Option.bind props rootPath of None \<Rightarrow> ''/'' | Some r \<Rightarrow> r)
      in
      if \<not> truthy_FunctionDefinition srv then
        ([], Inl (Error (''Missing '' @ dq ''server'' @ '' in the '' @ dq cid @ '' ApolloApi'')))
      else
        (case (props, srv) of
           (Some p, Some s) \<Rightarrow>
             (if routes p \<noteq> None then
                ([], Inl (Error (''Please use the '' @ dq ''server'' @ '' option instead of the ''
                     @ dq ''routes'' @ '' to configure the handler for the '' @ dq cid
                     @ '' ApolloApi'')))
              else
                (case run_codegen d scope cid (codegen p) of
                   (ev, Inl e) \<Rightarrow> (ev, Inl e)
                 | (ev, Inr _) \<Rightarrow>
                     (ev @ [ApiSuper cid (super_props p s rp)],
                      (case Api_constructor
                              (createFunctionIntegration (Api_createFunctionIntegration d))
                              (postfixName d) scope cid (super_props p s rp)
                              \<lparr> node_id = [], integrations = [],
                                tree = \<lparr> registered = Map.empty, constructs = w \<rparr>,
                                lambdaIntegration = None, this_rootPath = None,
                                this_props = None \<rparr> of
                         Inl e \<Rightarrow> Inl e
                       | Inr this \<Rightarrow>
                           Inr (this\<lparr>this_rootPath := Some rp, this_props := Some p\<rparr>)))))
         | _ \<Rightarrow>
             ([], Inl (TypeError ''Cannot destructure property routes of undefined''))))"


text \<open>
  Calls of \<^verbatim>\<open>createFunctionIntegration\<close> on one instance, one after the other, each
  with its own arguments \<^verbatim>\<open>(scope, routeKey, routeProps, postfixName)\<close>; an exception
  ends the sequence, as it ends the build.
\<close>

fun createFunctionIntegration_calls ::
  "('sc \<Rightarrow> string \<Rightarrow> 'rp \<Rightarrow> string \<Rightarrow> 'w \<Rightarrow> js_error + ('h \<times> 'w))
   \<Rightarrow> ('sc \<times> string \<times> 'rp \<times> string) list \<Rightarrow> ('o, 'x, 'h, 'w) ApolloApi
   \<Rightarrow> js_error + ('h list \<times> ('o, 'x, 'h, 'w) ApolloApi)" where
  "createFunctionIntegration_calls dflt [] this = Inr ([], this)"
| "createFunctionIntegration_calls dflt ((scope, routeKey, routeProps, postfix) # cs) this =
     (case createFunctionIntegration dflt scope routeKey routeProps postfix this of
        Inl e \<Rightarrow> Inl e
      | Inr (h, this') \<Rightarrow>
          (case createFunctionIntegration_calls dflt cs this' of
             Inl e \<Rightarrow> Inl e
           | Inr (hs, this'') \<Rightarrow> Inr (h # hs, this'')))"

subsection \<open>Metadata objects\<close>

text \<open>
  \<^verbatim>\<open>getConstructMetadata\<close> builds objects, and whether it leaves the object the
  parent returned alone is a question of references, so objects live in a store: an
  address is a reference, an object maps property names to values, and an object literal
  takes the next free address.
\<close>

type_synonym addr = nat

datatype 'v jsval = JUndefined | JString string | JRef addr | JOther 'v

type_synonym 'v obj = "string \<rightharpoonup> 'v jsval"

record 'v store =
  objs :: "addr \<Rightarrow> 'v obj"
  next_addr :: addr

definition alloc :: "'v obj \<Rightarrow> 'v store \<Rightarrow> addr \<times> 'v store" where
  "alloc ob st =
     (next_addr st, st\<lparr>objs := (objs st)(next_addr st := ob), next_addr := Suc (next_addr st)\<rparr>)"

definition set_prop :: "addr \<Rightarrow> string \<Rightarrow> 'v jsval \<Rightarrow> 'v store \<Rightarrow> 'v store" where
  "set_prop a k v st = st\<lparr>objs := (objs st)(a := (objs st a)(k \<mapsto> v))\<rparr>"

text \<open>
  \<^verbatim>\<open>getConstructMetadata\<close> (lines 88 to 96). \<open>super_gcm\<close> is the method of
  \<^verbatim>\<open>Api\<close>: it returns the address of the parent's metadata and may change the object
  and the store. The literal \<^verbatim>\<open>{ ...parent, local: { codegen: this.props.codegen } }\<close>
  is evaluated left to right: a new object with the properties of the parent, then the
  inner literal, then the property \<^verbatim>\<open>local\<close>.
\<close>

definition getConstructMetadata ::
  "(('o, 'x, 'h, 'w) ApolloApi \<Rightarrow> 'v store \<Rightarrow> addr \<times> ('o, 'x, 'h, 'w) ApolloApi \<times> 'v store)
   \<Rightarrow> ('o, 'x, 'h, 'w) ApolloApi \<Rightarrow> 'v store
   \<Rightarrow> js_error + (addr \<times> ('o, 'x, 'h, 'w) ApolloApi \<times> 'v store)" where
  "getConstructMetadata super_gcm this st =
     (case super_gcm this st of
        (parent, this1, st1) \<Rightarrow>
          (case alloc (objs st1 parent) st1 of
             (r, st2) \<Rightarrow>
               (case this_props this1 of
                  None \<Rightarrow> Inl (TypeError ''Cannot read properties of undefined (reading codegen)'')
                | Some p \<Rightarrow>
                    (case alloc [''codegen'' \<mapsto>
                                   (case codegen p of None \<Rightarrow> JUndefined | Some c \<Rightarrow> JString c)]
                                st2 of
                       (l, st3) \<Rightarrow> Inr (r, this1, set_prop r ''local'' (JRef l) st3)))))"

subsection \<open>A concrete environment\<close>

text \<open>
  Used to run the definitions: the scope is its own local-mode flag, the schema generator
  exits with status 1, and objects are numbered as they are created, the construct tree
  being the count of them: the default logic of \<^verbatim>\<open>Api\<close> creates a Function construct
  and then an integration, and \<open>example_default\<close> is a default logic that creates an
  integration only.
\<close>

definition example_deps :: "(bool, nat, nat, nat) deps" where
  "example_deps =
     \<lparr> App_local = (\<lambda>sc. sc),
       spawn_sync = (\<lambda>c args stdio. Some 1),
       default_integration = (\<lambda>sc k rp pf c. Inr ((c, Suc c), Suc (Suc c))),
       postfixName = (\<lambda>k. k) \<rparr>"

definition example_default ::
  "bool \<Rightarrow> string \<Rightarrow> unit FunctionDefinition \<Rightarrow> string \<Rightarrow> nat \<Rightarrow> js_error + (nat \<times> nat)" where
  "example_default sc k rp pf w = Inr (w, Suc w)"

definition example_props :: "(nat, unit) ApolloApiProps" where
  "example_props =
     \<lparr> server = Some (FnHandler ''src/graphql.handler''),
       rootPath = Some ''/graphql'',
       defaultPayloadFormatVersion = None,
       routes = None,
       codegen = Some ''codegen.yml'',
       otherProps = [] \<rparr>"

definition example_this :: "(nat, unit, nat, nat) ApolloApi" where
  "example_this =
     \<lparr> node_id = ''Api'', integrations = [], tree = 0,
       lambdaIntegration = None, this_rootPath = Some ''/graphql'',
       this_props = Some example_props \<rparr>"



definition example_store :: "unit store" where
  "example_store =
     \<lparr> objs = (\<lambda>a. if a = 0 then [''type'' \<mapsto> JString ''Api''] else Map.empty),
       next_addr = 1 \<rparr>"

definition example_super_gcm ::
  "(nat, unit, nat, nat) ApolloApi \<Rightarrow> unit store
   \<Rightarrow> addr \<times> (nat, unit, nat, nat) ApolloApi \<times> unit store" where
  \<comment> \<open>a parent whose metadata is the object at address 0 and which changes nothing\<close>
  "example_super_gcm t s = (0, t, s)"

section \<open>Properties\<close>

subsection \<open>Auxiliary facts\<close>

lemma sublist_in_quotes: "sublist cid (pre @ dq cid @ post)"
proof -
  have "pre @ dq cid @ post = (pre @ [CHR 0x22]) @ cid @ ([CHR 0x22] @ post)"
    by (simp add: dq_def)
  then show ?thesis
    unfolding sublist_def by blast
qed

lemma run_codegen_local:
  "App_local d scope \<Longrightarrow> run_codegen d scope cid cg = ([], Inr ())"
  by (simp add: run_codegen_def split: option.splits)

lemma run_codegen_events:
  "ApiSuper i ap \<notin> set (fst (run_codegen d scope cid cg))"
  by (simp add: run_codegen_def Let_def split: option.splits)

lemma truthy_server_cases:
  assumes "truthy_FunctionDefinition (Option.bind props server)"
  obtains p s where "props = Some p" and "server p = Some s"
    and "truthy_FunctionDefinition (Some s)"
  using assms by (cases props; cases "Option.bind props server") auto

text \<open>The default logic of the parent does not look at the mode or at the generator.\<close>

lemma Api_createFunctionIntegration_env:
  "Api_createFunctionIntegration (d\<lparr>App_local := a, spawn_sync := b\<rparr>) =
   Api_createFunctionIntegration d"
  by (simp add: fun_eq_iff Api_createFunctionIntegration_def)

text \<open>The constructor on a configuration that passes both validations.\<close>

lemma constructor_valid:
  assumes "server p = Some s" and "truthy_FunctionDefinition (Some s)" and "routes p = None"
  shows "ApolloApi_constructor d scope cid (Some p) w =
           (case run_codegen d scope cid (codegen p) of
              (ev, Inl e) \<Rightarrow> (ev, Inl e)
            | (ev, Inr _) \<Rightarrow>
                (ev @ [ApiSuper cid
                         (super_props p s (case rootPath p of None \<Rightarrow> ''/'' | Some r \<Rightarrow> r))],
                 (case Api_constructor
                         (createFunctionIntegration (Api_createFunctionIntegration d))
                         (postfixName d) scope cid
                         (super_props p s (case rootPath p of None \<Rightarrow> ''/'' | Some r \<Rightarrow> r))
                         \<lparr> node_id = [], integrations = [],
                           tree = \<lparr> registered = Map.empty, constructs = w \<rparr>,
                           lambdaIntegration = None, this_rootPath = None,
                           this_props = None \<rparr> of
                    Inl e \<Rightarrow> Inl e
                  | Inr this \<Rightarrow>
                      Inr (this\<lparr>this_rootPath :=
                                  Some (case rootPath p of None \<Rightarrow> ''/'' | Some r \<Rightarrow> r),
                                this_props := Some p\<rparr>))))"
  using assms by (simp add: ApolloApi_constructor_def Let_def)

lemma constructor_valid_events:
  assumes "server p = Some s" and "truthy_FunctionDefinition (Some s)" and "routes p = None"
    and "case codegen p of None \<Rightarrow> True
         | Some path \<Rightarrow> path = [] \<or> App_local d scope
             \<or> spawn_sync d ''npx'' [''graphql-codegen'', ''-c'', path] ''inherit'' = Some 0"
  shows "fst (ApolloApi_constructor d scope cid (Some p) w) =
           fst (run_codegen d scope cid (codegen p))
           @ [ApiSuper cid (super_props p s (case rootPath p of None \<Rightarrow> ''/'' | Some r \<Rightarrow> r))]"
  using assms(4)
  by (auto simp: constructor_valid [OF assms(1-3)] run_codegen_def Let_def split: option.splits)

text \<open>A sequence of calls on an object whose integration is already cached.\<close>

lemma calls_cached:
  "lambdaIntegration this = Some h \<Longrightarrow>
   createFunctionIntegration_calls dflt cs this = Inr (replicate (length cs) h, this)"
  by (induction cs arbitrary: this) (auto simp: createFunctionIntegration_def)




subsection \<open>The integration is created once\<close>

text \<open>
  C1. On one instance at most one integration is created. Any sequence of calls of
  \<^verbatim>\<open>createFunctionIntegration\<close> on an object with an empty cache has the effect of a
  single call of the default logic of the parent, with the arguments of the first call:
  that call's handle is cached and is the result of every call of the sequence, whatever
  the route key, route properties and name suffix of the later calls; the construct tree
  is the one the single default call left. On an object with a cached handle every call
  returns that handle and changes nothing. (If the default logic throws, the first call
  throws and nothing is cached.)
\<close>

theorem createFunctionIntegration_single_handle:
  "createFunctionIntegration_calls dflt cs this =
     (case lambdaIntegration this of
        Some h \<Rightarrow> Inr (replicate (length cs) h, this)
      | None \<Rightarrow>
          (case cs of
             [] \<Rightarrow> Inr ([], this)
           | (scope, routeKey, routeProps, postfix) # _ \<Rightarrow>
               (case dflt scope routeKey routeProps postfix (tree this) of
                  Inl e \<Rightarrow> Inl e
                | Inr (h, w) \<Rightarrow>
                    Inr (replicate (length cs) h,
                         this\<lparr>tree := w, lambdaIntegration := Some h\<rparr>))))"
proof (cases "lambdaIntegration this")
  case (Some h)
  then show ?thesis by (simp add: calls_cached)
next
  case None
  show ?thesis
  proof (cases cs)
    case Nil
    with None show ?thesis by simp
  next
    case (Cons c cs')
    obtain scope routeKey routeProps postfix where c: "c = (scope, routeKey, routeProps, postfix)"
      by (cases c) auto
    show ?thesis
    proof (cases "dflt scope routeKey routeProps postfix (tree this)")
      case (Inl e)
      with None Cons c show ?thesis by (simp add: createFunctionIntegration_def)
    next
      case (Inr r)
      obtain h w where r: "r = (h, w)" by (cases r) auto
      have "lambdaIntegration (this\<lparr>tree := w, lambdaIntegration := Some h\<rparr>) = Some h"
        by simp
      from calls_cached [OF this, of dflt cs'] None Cons c Inr r show ?thesis
        by (simp add: createFunctionIntegration_def)
    qed
  qed
qed

theorem createFunctionIntegration_single_handle_witness:
  "createFunctionIntegration_calls example_default
     [(True, ''GET /graphql'', FnHandler ''a.handler'', ''GET_graphql''),
      (True, ''POST /graphql'', FnHandler ''b.handler'', ''POST_graphql''),
      (False, ''PUT /other'', FnObject (), ''PUT_other'')]
     example_this =
   Inr ([0, 0, 0], example_this\<lparr>tree := 1, lambdaIntegration := Some 0\<rparr>)"
  using createFunctionIntegration_single_handle
    [of example_default
        "[(True, ''GET /graphql'', FnHandler ''a.handler'', ''GET_graphql''),
          (True, ''POST /graphql'', FnHandler ''b.handler'', ''POST_graphql''),
          (False, ''PUT /other'', FnObject (), ''PUT_other'')]"
        example_this]
  by (simp add: example_this_def example_default_def numeral_3_eq_3)

subsection \<open>Validation\<close>

text \<open>
  C3. A configuration without \<^verbatim>\<open>server\<close> (the field omitted, or any falsy value in
  it) makes the constructor throw the error whose message names the construct identifier.
  The list of events is empty: the schema generator has not been started and no route map
  has been handed to \<^verbatim>\<open>Api\<close>.
\<close>

theorem missing_server_fails:
  assumes "\<not> truthy_FunctionDefinition (Option.bind props server)"
  shows "ApolloApi_constructor d scope cid props w =
           ([], Inl (Error (''Missing '' @ dq ''server'' @ '' in the '' @ dq cid @ '' ApolloApi'')))
         \<and> sublist cid (''Missing '' @ dq ''server'' @ '' in the '' @ dq cid @ '' ApolloApi'')"
proof
  show "ApolloApi_constructor d scope cid props w =
          ([], Inl (Error (''Missing '' @ dq ''server'' @ '' in the '' @ dq cid @ '' ApolloApi'')))"
    using assms by (simp add: ApolloApi_constructor_def)
  show "sublist cid (''Missing '' @ dq ''server'' @ '' in the '' @ dq cid @ '' ApolloApi'')"
    using sublist_in_quotes [of cid "''Missing '' @ dq ''server'' @ '' in the ''" "'' ApolloApi''"]
    by simp
qed

theorem missing_server_fails_witness:
  "server (example_props\<lparr>server := None\<rparr>) = None
   \<and> ApolloApi_constructor example_deps False ''Api''
        (Some (example_props\<lparr>server := None\<rparr>)) 0 =
      ([], Inl (Error (''Missing '' @ dq ''server'' @ '' in the '' @ dq ''Api'' @ '' ApolloApi'')))
   \<and> sublist ''Api'' (''Missing '' @ dq ''server'' @ '' in the '' @ dq ''Api'' @ '' ApolloApi'')"
  using missing_server_fails
    [of "Some (example_props\<lparr>server := None\<rparr>)" example_deps False "''Api''" 0]
  by simp

text \<open>
  C4. A configuration with a \<^verbatim>\<open>server\<close> and with an explicit route map makes the
  constructor throw the error that tells the caller to use \<^verbatim>\<open>server\<close> instead of
  \<^verbatim>\<open>routes\<close>. The list of events is empty, so the check comes before the schema
  generator; it comes after the check of \<^verbatim>\<open>server\<close>: the same configuration without
  its \<^verbatim>\<open>server\<close> fails with the error about the missing server.
\<close>

theorem explicit_routes_rejected:
  assumes "truthy_FunctionDefinition (server p)" and "routes p = Some r"
  shows "ApolloApi_constructor d scope cid (Some p) w =
           ([], Inl (Error (''Please use the '' @ dq ''server'' @ '' option instead of the ''
                            @ dq ''routes'' @ '' to configure the handler for the '' @ dq cid
                            @ '' ApolloApi'')))
         \<and> ApolloApi_constructor d scope cid (Some (p\<lparr>server := None\<rparr>)) w =
           ([], Inl (Error (''Missing '' @ dq ''server'' @ '' in the '' @ dq cid @ '' ApolloApi'')))"
proof -
  from assms(1) obtain s where "server p = Some s"
    by (cases "server p") auto
  with assms show ?thesis
    by (simp add: ApolloApi_constructor_def)
qed

theorem explicit_routes_rejected_witness:
  "truthy_FunctionDefinition (server (example_props\<lparr>routes := Some []\<rparr>))
   \<and> routes (example_props\<lparr>routes := Some []\<rparr>) = Some []
   \<and> ApolloApi_constructor example_deps False ''Api''
        (Some (example_props\<lparr>routes := Some []\<rparr>)) 0 =
      ([], Inl (Error (''Please use the '' @ dq ''server'' @ '' option instead of the ''
                       @ dq ''routes'' @ '' to configure the handler for the '' @ dq ''Api''
                       @ '' ApolloApi'')))"
proof -
  have h1: "truthy_FunctionDefinition (server (example_props\<lparr>routes := Some []\<rparr>))"
    by (simp add: example_props_def)
  have h2: "routes (example_props\<lparr>routes := Some []\<rparr>) = Some []"
    by simp
  from explicit_routes_rejected [OF h1 h2, of example_deps False "''Api''" 0] h1 h2
  show ?thesis by simp
qed

text \<open>
  C10. When the configuration itself is absent (\<^verbatim>\<open>null\<close> or \<^verbatim>\<open>undefined\<close>),
  the constructor throws the error about the missing \<^verbatim>\<open>server\<close>, not a
  \<^verbatim>\<open>TypeError\<close>: the fields are read from \<^verbatim>\<open>props || {}\<close>. Nothing is
  spawned and \<^verbatim>\<open>Api\<close> is not reached.
\<close>

theorem absent_props_missing_server:
  "ApolloApi_constructor d scope cid None w =
     ([], Inl (Error (''Missing '' @ dq ''server'' @ '' in the '' @ dq cid @ '' ApolloApi'')))"
  by (simp add: ApolloApi_constructor_def)

theorem absent_props_missing_server_witness:
  "ApolloApi_constructor example_deps False ''Api''
     (None :: (nat, unit) ApolloApiProps option) 0 =
   ([], Inl (Error (''Missing '' @ dq ''server'' @ '' in the '' @ dq ''Api'' @ '' ApolloApi'')))"
  using absent_props_missing_server [of example_deps False "''Api''" 0]
  by simp

subsection \<open>The schema generator\<close>

text \<open>
  C5. Take a valid configuration (a \<^verbatim>\<open>server\<close>, no route map) whose
  \<^verbatim>\<open>codegen\<close> is set, that is a non-empty path, which is what
  \<^verbatim>\<open>if (props.codegen)\<close> tests. Outside local mode, when the schema generator does not
  exit with status 0, the constructor throws the error whose message names the construct
  identifier. The only event is the run of the generator: \<^verbatim>\<open>Api\<close> is never invoked
  and receives no route map.
\<close>

theorem codegen_failure_aborts:
  assumes "truthy_FunctionDefinition (server p)" and "routes p = None"
    and "codegen p = Some path" and "path \<noteq> []"
    and "\<not> App_local d scope"
    and "spawn_sync d ''npx'' [''graphql-codegen'', ''-c'', path] ''inherit'' \<noteq> Some 0"
  shows "ApolloApi_constructor d scope cid (Some p) w =
           ([SpawnSync ''npx'' [''graphql-codegen'', ''-c'', path] ''inherit''],
            Inl (Error (''Failed to generate the schema for the '' @ dq cid @ '' ApolloApi'')))
         \<and> sublist cid (''Failed to generate the schema for the '' @ dq cid @ '' ApolloApi'')
         \<and> (\<forall>i ap. ApiSuper i ap \<notin> set (fst (ApolloApi_constructor d scope cid (Some p) w)))"
proof -
  from assms(1) obtain s where s: "server p = Some s"
    by (cases "server p") auto
  have run: "run_codegen d scope cid (codegen p) =
               ([SpawnSync ''npx'' [''graphql-codegen'', ''-c'', path] ''inherit''],
                Inl (Error (''Failed to generate the schema for the '' @ dq cid @ '' ApolloApi'')))"
    using assms(3-6) by (simp add: run_codegen_def)
  have res: "ApolloApi_constructor d scope cid (Some p) w =
           ([SpawnSync ''npx'' [''graphql-codegen'', ''-c'', path] ''inherit''],
            Inl (Error (''Failed to generate the schema for the '' @ dq cid @ '' ApolloApi'')))"
    using assms(1,2) s by (simp add: ApolloApi_constructor_def run)
  have "sublist cid (''Failed to generate the schema for the '' @ dq cid @ '' ApolloApi'')"
    by (rule sublist_in_quotes)
  with res show ?thesis by simp
qed

theorem codegen_failure_aborts_witness:
  "truthy_FunctionDefinition (server example_props) \<and> routes example_props = None
   \<and> codegen example_props = Some ''codegen.yml''
   \<and> \<not> App_local example_deps False
   \<and> spawn_sync example_deps ''npx'' [''graphql-codegen'', ''-c'', ''codegen.yml''] ''inherit''
       = Some 1
   \<and> ApolloApi_constructor example_deps False ''Api'' (Some example_props) 0 =
       ([SpawnSync ''npx'' [''graphql-codegen'', ''-c'', ''codegen.yml''] ''inherit''],
        Inl (Error (''Failed to generate the schema for the '' @ dq ''Api'' @ '' ApolloApi'')))"
proof -
  have h1: "truthy_FunctionDefinition (server example_props)"
    and h2: "routes example_props = None"
    and h3: "codegen example_props = Some ''codegen.yml''"
    by (simp_all add: example_props_def)
  have h4: "''codegen.yml'' \<noteq> []"
    by simp
  have h5: "\<not> App_local example_deps False"
    by (simp add: example_deps_def)
  have h6: "spawn_sync example_deps ''npx'' [''graphql-codegen'', ''-c'', ''codegen.yml'']
              ''inherit'' \<noteq> Some 0"
    by (simp add: example_deps_def)
  have "spawn_sync example_deps ''npx'' [''graphql-codegen'', ''-c'', ''codegen.yml'']
          ''inherit'' = Some 1"
    by (simp add: example_deps_def)
  with codegen_failure_aborts [OF h1 h2 h3 h4 h5 h6, of "''Api''" 0] h1 h2 h3 h5
  show ?thesis by simp
qed

text \<open>
  C6. In local mode the schema generator is never started, whatever the configuration and
  so also when \<^verbatim>\<open>codegen\<close> is set. The validation of \<^verbatim>\<open>server\<close> still takes
  place: without a \<^verbatim>\<open>server\<close> the constructor throws the error about it. A valid
  configuration goes on as usual: the only event is the delegation to \<^verbatim>\<open>Api\<close> with
  the derived configuration, and the outcome is the one of an environment where the
  generator runs and exits with status 0.
\<close>

theorem local_mode_skips_codegen:
  assumes "App_local d scope"
  shows "(\<forall>c a s. SpawnSync c a s \<notin> set (fst (ApolloApi_constructor d scope cid props w)))
       \<and> (\<not> truthy_FunctionDefinition (Option.bind props server) \<longrightarrow>
            ApolloApi_constructor d scope cid props w =
              ([], Inl (Error (''Missing '' @ dq ''server'' @ '' in the '' @ dq cid
                               @ '' ApolloApi''))))
       \<and> (\<forall>p s. props = Some p \<and> server p = Some s \<and> truthy_FunctionDefinition (Some s)
                 \<and> routes p = None \<longrightarrow>
            fst (ApolloApi_constructor d scope cid props w) =
              [ApiSuper cid (super_props p s (case rootPath p of None \<Rightarrow> ''/'' | Some r \<Rightarrow> r))]
            \<and> snd (ApolloApi_constructor d scope cid props w) =
              snd (ApolloApi_constructor
                     (d\<lparr>App_local := \<lambda>_. False, spawn_sync := \<lambda>_ _ _. Some 0\<rparr>)
                     scope cid props w))"
proof (intro conjI allI impI)
  fix c a s
  show "SpawnSync c a s \<notin> set (fst (ApolloApi_constructor d scope cid props w))"
  proof (cases "truthy_FunctionDefinition (Option.bind props server)")
    case False
    then show ?thesis by (simp add: ApolloApi_constructor_def)
  next
    case True
    then obtain p srv where p: "props = Some p" "server p = Some srv"
      and t: "truthy_FunctionDefinition (Some srv)"
      by (rule truthy_server_cases)
    show ?thesis
    proof (cases "routes p")
      case None
      with p t assms show ?thesis
        by (simp add: constructor_valid run_codegen_local)
    next
      case (Some r)
      with p t show ?thesis
        by (simp add: ApolloApi_constructor_def)
    qed
  qed
next
  assume "\<not> truthy_FunctionDefinition (Option.bind props server)"
  then show "ApolloApi_constructor d scope cid props w =
      ([], Inl (Error (''Missing '' @ dq ''server'' @ '' in the '' @ dq cid @ '' ApolloApi'')))"
    by (simp add: ApolloApi_constructor_def)
next
  fix p s
  assume v: "props = Some p \<and> server p = Some s \<and> truthy_FunctionDefinition (Some s)
             \<and> routes p = None"
  with assms show "fst (ApolloApi_constructor d scope cid props w) =
      [ApiSuper cid (super_props p s (case rootPath p of None \<Rightarrow> ''/'' | Some r \<Rightarrow> r))]"
    by (simp add: constructor_valid run_codegen_local)
  from v assms
  show "snd (ApolloApi_constructor d scope cid props w) =
        snd (ApolloApi_constructor
               (d\<lparr>App_local := \<lambda>_. False, spawn_sync := \<lambda>_ _ _. Some 0\<rparr>) scope cid props w)"
    by (simp add: ApolloApi_constructor_def run_codegen_def Let_def
                  Api_createFunctionIntegration_env split: option.splits)
qed

theorem local_mode_skips_codegen_witness:
  "App_local example_deps True
   \<and> codegen example_props = Some ''codegen.yml''
   \<and> ApolloApi_constructor example_deps True ''Api''
        (Some (example_props\<lparr>server := None\<rparr>)) 0 =
       ([], Inl (Error (''Missing '' @ dq ''server'' @ '' in the '' @ dq ''Api''
                        @ '' ApolloApi'')))
   \<and> fst (ApolloApi_constructor example_deps True ''Api'' (Some example_props) 0) =
       [ApiSuper ''Api'' (super_props example_props (FnHandler ''src/graphql.handler'')
                           ''/graphql'')]"
proof -
  have h: "App_local example_deps True"
    by (simp add: example_deps_def)
  have c: "codegen example_props = Some ''codegen.yml''"
    by (simp add: example_props_def)
  have v: "Some example_props = Some example_props
           \<and> server example_props = Some (FnHandler ''src/graphql.handler'')
           \<and> truthy_FunctionDefinition (Some (FnHandler ''src/graphql.handler''))
           \<and> routes example_props = None"
    by (simp add: example_props_def)
  have r: "(case rootPath example_props of None \<Rightarrow> ''/'' | Some r \<Rightarrow> r) = ''/graphql''"
    by (simp add: example_props_def)
  have f: "\<not> truthy_FunctionDefinition
               (Option.bind (Some (example_props\<lparr>server := None\<rparr>)) server)"
    by simp
  note a = local_mode_skips_codegen [OF h, of "''Api''" "Some example_props" 0]
  note b = local_mode_skips_codegen
             [OF h, of "''Api''" "Some (example_props\<lparr>server := None\<rparr>)" 0]
  from a v r have a2: "fst (ApolloApi_constructor example_deps True ''Api'' (Some example_props) 0)
       = [ApiSuper ''Api'' (super_props example_props (FnHandler ''src/graphql.handler'')
                             ''/graphql'')]"
    by metis
  from b f have b2: "ApolloApi_constructor example_deps True ''Api''
             (Some (example_props\<lparr>server := None\<rparr>)) 0 =
       ([], Inl (Error (''Missing '' @ dq ''server'' @ '' in the '' @ dq ''Api''
                        @ '' ApolloApi'')))"
    by blast
  from h c b2 a2 show ?thesis by blast
qed

subsection \<open>Delegation to the parent constructor\<close>

text \<open>
  C2. Take a valid configuration (a \<^verbatim>\<open>server\<close>, no route map) on which the codegen
  block does not throw: \<^verbatim>\<open>codegen\<close> unset or empty, or local mode, or the generator
  exiting with status 0. Then exactly one route map is handed to \<^verbatim>\<open>Api\<close>, as the
  last event, and it has exactly two entries, under the distinct keys
  \<^verbatim>\<open>GET <rootPath>\<close> and \<^verbatim>\<open>POST <rootPath>\<close>, both with the supplied
  \<^verbatim>\<open>server\<close>; \<^verbatim>\<open>rootPath\<close> is \<^verbatim>\<open>/\<close> when the caller omits it.
\<close>

theorem route_map_two_entries:
  assumes "server p = Some s" and "truthy_FunctionDefinition (Some s)" and "routes p = None"
    and "case codegen p of None \<Rightarrow> True
         | Some path \<Rightarrow> path = [] \<or> App_local d scope
             \<or> spawn_sync d ''npx'' [''graphql-codegen'', ''-c'', path] ''inherit'' = Some 0"
  shows "\<exists>ev ap. fst (ApolloApi_constructor d scope cid (Some p) w) = ev @ [ApiSuper cid ap]
           \<and> (\<forall>i a. ApiSuper i a \<notin> set ev)
           \<and> api_routes ap =
               [(''GET '' @ (case rootPath p of None \<Rightarrow> ''/'' | Some r \<Rightarrow> r), s),
                (''POST '' @ (case rootPath p of None \<Rightarrow> ''/'' | Some r \<Rightarrow> r), s)]
           \<and> length (api_routes ap) = 2
           \<and> distinct (map fst (api_routes ap))"
proof -
  let ?rp = "case rootPath p of None \<Rightarrow> ''/'' | Some r \<Rightarrow> r"
  have e: "fst (ApolloApi_constructor d scope cid (Some p) w) =
             fst (run_codegen d scope cid (codegen p)) @ [ApiSuper cid (super_props p s ?rp)]"
    by (rule constructor_valid_events [OF assms])
  have r: "api_routes (super_props p s ?rp) = [(''GET '' @ ?rp, s), (''POST '' @ ?rp, s)]"
    by (simp add: super_props_def)
  show ?thesis
  proof (intro exI conjI)
    show "fst (ApolloApi_constructor d scope cid (Some p) w) =
            fst (run_codegen d scope cid (codegen p)) @ [ApiSuper cid (super_props p s ?rp)]"
      by (rule e)
    show "\<forall>i a. ApiSuper i a \<notin> set (fst (run_codegen d scope cid (codegen p)))"
      by (simp add: run_codegen_events)
    show "api_routes (super_props p s ?rp) = [(''GET '' @ ?rp, s), (''POST '' @ ?rp, s)]"
      by (rule r)
    show "length (api_routes (super_props p s ?rp)) = 2"
      by (simp add: r)
    show "distinct (map fst (api_routes (super_props p s ?rp)))"
      by (simp add: r)
  qed
qed

theorem route_map_two_entries_witness:
  "server example_props = Some (FnHandler ''src/graphql.handler'')
   \<and> routes example_props = None
   \<and> (\<exists>ev ap. fst (ApolloApi_constructor example_deps True ''Api'' (Some example_props) 0) =
                 ev @ [ApiSuper ''Api'' ap]
        \<and> api_routes ap = [(''GET /graphql'', FnHandler ''src/graphql.handler''),
                            (''POST /graphql'', FnHandler ''src/graphql.handler'')])
   \<and> (\<exists>ev ap. fst (ApolloApi_constructor example_deps True ''Api''
                       (Some (example_props\<lparr>rootPath := None\<rparr>)) 0) =
                 ev @ [ApiSuper ''Api'' ap]
        \<and> api_routes ap = [(''GET /'', FnHandler ''src/graphql.handler''),
                            (''POST /'', FnHandler ''src/graphql.handler'')])"
proof -
  have h1: "server example_props = Some (FnHandler ''src/graphql.handler'')"
    and h2: "routes example_props = None"
    by (simp_all add: example_props_def)
  have h3: "truthy_FunctionDefinition (Some (FnHandler ''src/graphql.handler''))"
    by simp
  have h4: "case codegen example_props of None \<Rightarrow> True
            | Some path \<Rightarrow> path = [] \<or> App_local example_deps True
                \<or> spawn_sync example_deps ''npx'' [''graphql-codegen'', ''-c'', path] ''inherit''
                   = Some 0"
    by (simp add: example_props_def example_deps_def)
  have g1: "server (example_props\<lparr>rootPath := None\<rparr>) = Some (FnHandler ''src/graphql.handler'')"
    and g2: "routes (example_props\<lparr>rootPath := None\<rparr>) = None"
    by (simp_all add: example_props_def)
  have g4: "case codegen (example_props\<lparr>rootPath := None\<rparr>) of None \<Rightarrow> True
            | Some path \<Rightarrow> path = [] \<or> App_local example_deps True
                \<or> spawn_sync example_deps ''npx'' [''graphql-codegen'', ''-c'', path] ''inherit''
                   = Some 0"
    by (simp add: example_props_def example_deps_def)
  have r: "(case rootPath example_props of None \<Rightarrow> ''/'' | Some r \<Rightarrow> r) = ''/graphql''"
    by (simp add: example_props_def)
  from route_map_two_entries [OF h1 h3 h2 h4, of "''Api''" 0]
  have a: "\<exists>ev ap. fst (ApolloApi_constructor example_deps True ''Api'' (Some example_props) 0) =
                 ev @ [ApiSuper ''Api'' ap]
        \<and> api_routes ap = [(''GET /graphql'', FnHandler ''src/graphql.handler''),
                            (''POST /graphql'', FnHandler ''src/graphql.handler'')]"
    unfolding r by auto
  from route_map_two_entries [OF g1 h3 g2 g4, of "''Api''" 0]
  have b: "\<exists>ev ap. fst (ApolloApi_constructor example_deps True ''Api''
                       (Some (example_props\<lparr>rootPath := None\<rparr>)) 0) =
                 ev @ [ApiSuper ''Api'' ap]
        \<and> api_routes ap = [(''GET /'', FnHandler ''src/graphql.handler''),
                            (''POST /'', FnHandler ''src/graphql.handler'')]"
    by auto
  from h1 h2 a b show ?thesis by blast
qed

text \<open>
  C9. Under the same conditions the configuration handed to \<^verbatim>\<open>Api\<close> consists of
  the remaining fields of the caller's configuration (\<^verbatim>\<open>codegen\<close> and the other
  fields of \<^verbatim>\<open>ApiProps\<close>), the derived route map, and a payload format version: the
  caller's when one is supplied, version 1.0 (\<open>V1\<close>) otherwise.
\<close>

theorem super_receives_rest_and_version:
  assumes "server p = Some s" and "truthy_FunctionDefinition (Some s)" and "routes p = None"
    and "case codegen p of None \<Rightarrow> True
         | Some path \<Rightarrow> path = [] \<or> App_local d scope
             \<or> spawn_sync d ''npx'' [''graphql-codegen'', ''-c'', path] ''inherit'' = Some 0"
  shows "last (fst (ApolloApi_constructor d scope cid (Some p) w)) =
           ApiSuper cid
             \<lparr> api_defaultPayloadFormatVersion =
                 Some (case defaultPayloadFormatVersion p of None \<Rightarrow> V1 | Some v \<Rightarrow> v),
               api_routes =
                 [(''GET '' @ (case rootPath p of None \<Rightarrow> ''/'' | Some r \<Rightarrow> r), s),
                  (''POST '' @ (case rootPath p of None \<Rightarrow> ''/'' | Some r \<Rightarrow> r), s)],
               api_codegen = codegen p,
               api_otherProps = otherProps p \<rparr>"
proof -
  let ?rp = "case rootPath p of None \<Rightarrow> ''/'' | Some r \<Rightarrow> r"
  have "last (fst (ApolloApi_constructor d scope cid (Some p) w)) =
          ApiSuper cid (super_props p s ?rp)"
    by (simp add: constructor_valid_events [OF assms])
  then show ?thesis
    by (simp add: super_props_def split: option.splits)
qed

theorem super_receives_rest_and_version_witness:
  "last (fst (ApolloApi_constructor example_deps True ''Api''
                (Some (example_props\<lparr>otherProps := [(''cors'', ())]\<rparr>)) 0)) =
     ApiSuper ''Api''
       \<lparr> api_defaultPayloadFormatVersion = Some V1,
         api_routes = [(''GET /graphql'', FnHandler ''src/graphql.handler''),
                       (''POST /graphql'', FnHandler ''src/graphql.handler'')],
         api_codegen = Some ''codegen.yml'',
         api_otherProps = [(''cors'', ())] \<rparr>
   \<and> last (fst (ApolloApi_constructor example_deps True ''Api''
                   (Some (example_props\<lparr>defaultPayloadFormatVersion := Some V2\<rparr>)) 0)) =
     ApiSuper ''Api''
       \<lparr> api_defaultPayloadFormatVersion = Some V2,
         api_routes = [(''GET /graphql'', FnHandler ''src/graphql.handler''),
                       (''POST /graphql'', FnHandler ''src/graphql.handler'')],
         api_codegen = Some ''codegen.yml'',
         api_otherProps = [] \<rparr>"
  using super_receives_rest_and_version
          [of "example_props\<lparr>otherProps := [(''cors'', ())]\<rparr>"
              "FnHandler ''src/graphql.handler''" example_deps True "''Api''" 0]
        super_receives_rest_and_version
          [of "example_props\<lparr>defaultPayloadFormatVersion := Some V2\<rparr>"
              "FnHandler ''src/graphql.handler''" example_deps True "''Api''" 0]
  by (simp add: example_props_def example_deps_def)

subsection \<open>The server function\<close>




subsection \<open>Metadata\<close>

text \<open>
  C8. \<^verbatim>\<open>getConstructMetadata\<close> on an object whose \<^verbatim>\<open>props\<close> are set, as the
  constructor leaves them. Let the method of the parent return the metadata object at
  address \<open>parent\<close>, leaving the object \<open>this1\<close> and the store \<open>st1\<close>. Then the
  call returns a new object that has every property of the parent's metadata unchanged
  except \<^verbatim>\<open>local\<close>, which refers to a second new object whose only property is
  \<^verbatim>\<open>codegen\<close>, the configured path (or \<^verbatim>\<open>undefined\<close>). The call itself has no
  effect: the object is as the parent's method left it, and so is every object that
  existed in the store, the parent's metadata among them; only the two new objects are
  added.
\<close>

theorem getConstructMetadata_frame:
  assumes "super_gcm this st = (parent, this1, st1)" and "this_props this1 = Some p"
  shows "\<exists>st'. getConstructMetadata super_gcm this st = Inr (next_addr st1, this1, st')
           \<and> (\<forall>a. a < next_addr st1 \<longrightarrow> objs st' a = objs st1 a)
           \<and> (\<forall>k. k \<noteq> ''local'' \<longrightarrow> objs st' (next_addr st1) k = objs st1 parent k)
           \<and> objs st' (next_addr st1) ''local'' = Some (JRef (Suc (next_addr st1)))
           \<and> objs st' (Suc (next_addr st1)) =
               [''codegen'' \<mapsto> (case codegen p of None \<Rightarrow> JUndefined | Some c \<Rightarrow> JString c)]
           \<and> next_addr st' = Suc (Suc (next_addr st1))"
  using assms
  by (simp add: getConstructMetadata_def alloc_def set_prop_def)

theorem getConstructMetadata_frame_witness:
  "\<exists>st'. getConstructMetadata example_super_gcm example_this example_store =
            Inr (1, example_this, st')
         \<and> objs st' 0 = objs example_store 0
         \<and> objs st' 1 ''type'' = Some (JString ''Api'')
         \<and> objs st' 1 ''local'' = Some (JRef 2)
         \<and> objs st' 2 ''codegen'' = Some (JString ''codegen.yml'')"
proof -
  have h1: "example_super_gcm example_this example_store = (0, example_this, example_store)"
    by (simp add: example_super_gcm_def)
  have h2: "this_props example_this = Some example_props"
    by (simp add: example_this_def)
  from getConstructMetadata_frame
      [of example_super_gcm example_this example_store 0 example_this example_store
          example_props, OF h1 h2]
  obtain st' where
    "getConstructMetadata example_super_gcm example_this example_store =
       Inr (next_addr example_store, example_this, st')"
    "\<forall>a. a < next_addr example_store \<longrightarrow> objs st' a = objs example_store a"
    "\<forall>k. k \<noteq> ''local'' \<longrightarrow> objs st' (next_addr example_store) k = objs example_store 0 k"
    "objs st' (next_addr example_store) ''local'' = Some (JRef (Suc (next_addr example_store)))"
    "objs st' (Suc (next_addr example_store)) =
       [''codegen'' \<mapsto> (case codegen example_props of None \<Rightarrow> JUndefined | Some c \<Rightarrow> JString c)]"
    by blast
  then show ?thesis
    by (auto simp: example_store_def example_props_def numeral_2_eq_2 intro!: exI [of _ st'])
qed

end
